theory Spec2Isabelle
  imports Main
begin

section \<open>The OpenAI chat adapter of AgentVerse (agentverse/llms/openai.py)\<close>

text \<open>
  The development embeds \<^verbatim>\<open>OpenAIChat.construct_messages\<close>, the bodies of
  \<^verbatim>\<open>OpenAIChat.generate_response\<close> and \<^verbatim>\<open>OpenAIChat.agenerate_response\<close>, and the
  retry decorator both carry. Python strings are \<open>string\<close>, a message dictionary is a
  map from keys to string values, exceptions are values of the type \<open>error\<close>, and a
  function that may raise returns \<open>error + 'a\<close> with \<open>Inl\<close> for the exception.
\<close>

subsection \<open>Exceptions\<close>

text \<open>
  The exceptions the module names or raises. \<open>KeyboardInterrupt\<close> derives from
  \<^verbatim>\<open>BaseException\<close> only; every other one derives from \<^verbatim>\<open>Exception\<close>.
  \<open>LiteralError\<close> stands for what \<^verbatim>\<open>ast.literal_eval\<close> raises on a string that is
  not a literal (\<^verbatim>\<open>ValueError\<close>, \<^verbatim>\<open>SyntaxError\<close> and the like).
\<close>

datatype error =
    OpenAIError string
  | KeyboardInterrupt
  | JSONDecodeError string
  | ValueError string
  | KeyError string
  | LiteralError string

fun is_Exception :: "error \<Rightarrow> bool" where
  "is_Exception KeyboardInterrupt = False"
| "is_Exception (OpenAIError _) = True"
| "is_Exception (JSONDecodeError _) = True"
| "is_Exception (ValueError _) = True"
| "is_Exception (KeyError _) = True"
| "is_Exception (LiteralError _) = True"

subsection \<open>Messages and message assembly\<close>

type_synonym message = "string \<rightharpoonup> string"

definition system_message :: "string \<Rightarrow> message" where
  "system_message prepend_prompt = [''role'' \<mapsto> ''system'', ''content'' \<mapsto> prepend_prompt]"

definition user_message :: "string \<Rightarrow> message" where
  "user_message append_prompt = [''role'' \<mapsto> ''user'', ''content'' \<mapsto> append_prompt]"

text \<open>
  \<^verbatim>\<open>construct_messages\<close> (lines 272-282), on values: the list \<open>messages\<close> starts
  empty and is extended three times, each time under the source's own test.
\<close>

definition construct_messages :: "string \<Rightarrow> message list \<Rightarrow> string \<Rightarrow> message list" where
  "construct_messages prepend_prompt history append_prompt =
     (let messages0 = [];
          messages1 = (if prepend_prompt \<noteq> '''' then messages0 @ [system_message prepend_prompt]
                       else messages0);
          messages2 = (if length history > 0 then messages1 @ history else messages1);
          messages3 = (if append_prompt \<noteq> '''' then messages2 @ [user_message append_prompt]
                       else messages2)
      in messages3)"

subsection \<open>Message assembly on a store\<close>

text \<open>
  Python lists and dictionaries are objects reached through references, and
  \<^verbatim>\<open>messages += history\<close> and \<^verbatim>\<open>messages.append\<close> update a list in place. The store
  is a list of objects, an address is an index into it, and a new object is put at the
  end, so its address is the length of the store before.
\<close>

type_synonym addr = nat

datatype obj = ListObj "addr list" | DictObj message

type_synonym store = "obj list"

definition alloc :: "store \<Rightarrow> obj \<Rightarrow> addr \<times> store" where
  "alloc h ob = (length h, h @ [ob])"

definition list_at :: "store \<Rightarrow> addr \<Rightarrow> addr list option" where
  "list_at h a =
     (if a < length h then (case h ! a of ListObj xs \<Rightarrow> Some xs | DictObj _ \<Rightarrow> None)
      else None)"

definition dict_at :: "store \<Rightarrow> addr \<Rightarrow> message option" where
  "dict_at h a =
     (if a < length h then (case h ! a of DictObj d \<Rightarrow> Some d | ListObj _ \<Rightarrow> None)
      else None)"

text \<open>\<^verbatim>\<open>xs.append(x)\<close>: the list object at \<open>a\<close> gains the reference \<open>x\<close> at its end.\<close>

definition list_append :: "store \<Rightarrow> addr \<Rightarrow> addr \<Rightarrow> store option" where
  "list_append h a x =
     (case list_at h a of None \<Rightarrow> None | Some xs \<Rightarrow> Some (h[a := ListObj (xs @ [x])]))"

text \<open>\<^verbatim>\<open>xs += ys\<close>: the list object at \<open>a\<close> gains the references held by the list at \<open>b\<close>.\<close>

definition list_extend :: "store \<Rightarrow> addr \<Rightarrow> addr \<Rightarrow> store option" where
  "list_extend h a b =
     (case list_at h a of None \<Rightarrow> None
      | Some xs \<Rightarrow> (case list_at h b of None \<Rightarrow> None
                    | Some ys \<Rightarrow> Some (h[a := ListObj (xs @ ys)])))"

text \<open>
  \<^verbatim>\<open>construct_messages\<close> on the store. \<open>history\<close> is the address of the caller's
  list; the result is the address of the list built and the store after the call, or
  \<open>None\<close> when \<open>history\<close> is not the address of a list.
\<close>

definition construct_messages_st ::
  "store \<Rightarrow> string \<Rightarrow> addr \<Rightarrow> string \<Rightarrow> (addr \<times> store) option" where
  "construct_messages_st h prepend_prompt history append_prompt =
     (case list_at h history of None \<Rightarrow> None
      | Some hs \<Rightarrow>
         (let (messages, h0) = alloc h (ListObj []);
              h1 = (if prepend_prompt \<noteq> '''' then
                      (let (d, h') = alloc h0 (DictObj (system_message prepend_prompt))
                       in list_append h' messages d)
                    else Some h0)
          in case h1 of None \<Rightarrow> None
             | Some h1 \<Rightarrow>
                (case (if length hs > 0 then list_extend h1 messages history else Some h1) of
                   None \<Rightarrow> None
                 | Some h2 \<Rightarrow>
                    (case (if append_prompt \<noteq> '''' then
                             (let (d, h') = alloc h2 (DictObj (user_message append_prompt))
                              in list_append h' messages d)
                           else Some h2) of
                       None \<Rightarrow> None
                     | Some h3 \<Rightarrow> Some (messages, h3)))))"

subsection \<open>Function-name normalisation\<close>

text \<open>Python's \<^verbatim>\<open>str.startswith\<close>.\<close>

fun startswith :: "string \<Rightarrow> string \<Rightarrow> bool" where
  "startswith s [] = True"
| "startswith [] (p # ps) = False"
| "startswith (c # cs) (p # ps) = (if c = p then startswith cs ps else False)"

text \<open>
  Python's \<^verbatim>\<open>str.replace(old, new)\<close>: every occurrence of \<open>old\<close>, found from the left
  and without overlap, becomes \<open>new\<close>; for an empty \<open>old\<close>, \<open>new\<close> is put before every
  character and at the end.
\<close>

function replace :: "string \<Rightarrow> string \<Rightarrow> string \<Rightarrow> string" where
  "replace s [] new = new @ concat (map (\<lambda>c. c # new) s)"
| "replace [] (p # ps) new = []"
| "replace (c # cs) (p # ps) new =
     (if startswith (c # cs) (p # ps) then new @ replace (drop (length ps) cs) (p # ps) new
      else c # replace cs (p # ps) new)"
  by pat_completeness auto
termination
  by (relation "measure (\<lambda>(s, old, new). length s)") auto

text \<open>Lines 205-208 of \<^verbatim>\<open>agenerate_response\<close>.\<close>

definition normalize_function_name :: "string \<Rightarrow> string" where
  "normalize_function_name function_name =
     (if startswith function_name ''function.'' then replace function_name ''function.'' ''''
      else if startswith function_name ''functions.'' then replace function_name ''functions.'' ''''
      else function_name)"

subsection \<open>Requests, replies and results\<close>

text \<open>
  A function schema is a dictionary; the adapter reads its \<^verbatim>\<open>"name"\<close> only and
  passes the rest through.
\<close>

record function_schema =
  fs_name :: string
  fs_description :: string
  fs_parameters :: string

text \<open>
  What \<^verbatim>\<open>openai.ChatCompletion.create\<close> and \<^verbatim>\<open>acreate\<close> are called with:
  \<open>req_functions\<close> is \<open>None\<close> when the keyword \<^verbatim>\<open>functions\<close> is not passed. The
  keyword arguments \<^verbatim>\<open>**self.args.dict()\<close> are the same in every call and are part
  of the remote service here.
\<close>

record request =
  req_messages :: "message list"
  req_functions :: "function_schema list option"

text \<open>
  A dictionary entry or a keyword argument: the key is absent, it holds \<^verbatim>\<open>None\<close>,
  or it holds a value.
\<close>

datatype 'a slot = Absent | Null | Present 'a

record function_call =
  fc_name :: string
  fc_arguments :: string

text \<open>
  The part of a reply the adapter reads: \<^verbatim>\<open>response["choices"][0]["message"]\<close> with
  its \<^verbatim>\<open>"content"\<close> and \<^verbatim>\<open>"function_call"\<close>, and \<^verbatim>\<open>response["usage"]\<close>.
  \<open>msg_function_call\<close> is \<open>None\<close> when \<^verbatim>\<open>.get("function_call")\<close> is \<^verbatim>\<open>None\<close>
  (the key is absent or null).
\<close>

record response =
  msg_content :: "string slot"
  msg_function_call :: "function_call option"
  prompt_tokens :: int
  completion_tokens :: int
  total_tokens_usage :: int

text \<open>
  \<^verbatim>\<open>LLMResult\<close>, by the keyword arguments of the constructor call: a field is
  \<open>Absent\<close> when the call does not pass it (the class default stands).
\<close>

record 'v LLMResult =
  content :: "string slot"
  function_name :: "string slot"
  function_arguments :: "'v slot"
  send_tokens :: int
  recv_tokens :: int
  total_tokens :: int

datatype log_event = LogPrompt "message list" | LogWarn string

text \<open>
  Each attempt logs the outbound messages once, as its first act (lines 121 and 187),
  so the prompt events of a log count the attempts that were run.
\<close>

fun is_prompt :: "log_event \<Rightarrow> bool" where
  "is_prompt (LogPrompt _) = True"
| "is_prompt (LogWarn _) = False"

type_synonym 'v outcome = "log_event list \<times> (error + 'v LLMResult)"

text \<open>\<^verbatim>\<open>message.get("content", "")\<close> and \<^verbatim>\<open>message["content"]\<close>.\<close>

fun get_content :: "string slot \<Rightarrow> string slot" where
  "get_content Absent = Present []"
| "get_content Null = Null"
| "get_content (Present s) = Present s"

fun index_content :: "string slot \<Rightarrow> error + string slot" where
  "index_content Absent = Inl (KeyError ''content'')"
| "index_content Null = Inr Null"
| "index_content (Present s) = Inr (Present s)"

text \<open>The text result, built at lines 150-155, 162-167, 251-256 and 263-268.\<close>

definition text_result :: "response \<Rightarrow> error + 'v LLMResult" where
  "text_result response =
     (case index_content (msg_content response) of
        Inl e \<Rightarrow> Inl e
      | Inr c \<Rightarrow> Inr \<lparr>content = c, function_name = Absent, function_arguments = Absent,
                     send_tokens = prompt_tokens response,
                     recv_tokens = completion_tokens response,
                     total_tokens = total_tokens_usage response\<rparr>)"

subsection \<open>One attempt of the blocking call\<close>

text \<open>
  The body of \<^verbatim>\<open>generate_response\<close> (lines 120-169), run once. \<open>literal_eval\<close> is
  \<^verbatim>\<open>ast.literal_eval\<close> and \<open>create\<close> is the remote call of this attempt. The
  \<^verbatim>\<open>except ... raise\<close> at the end re-raises what it catches, so every exception of
  the body leaves it as it is.
\<close>

definition generate_response_body ::
  "(string \<Rightarrow> error + 'v) \<Rightarrow> (request \<Rightarrow> error + response) \<Rightarrow>
   string \<Rightarrow> message list \<Rightarrow> string \<Rightarrow> function_schema list \<Rightarrow> 'v outcome" where
  "generate_response_body literal_eval create prepend_prompt history append_prompt functions =
     (let messages = construct_messages prepend_prompt history append_prompt;
          log = [LogPrompt messages]
      in if functions \<noteq> [] then
           (case create \<lparr>req_messages = messages, req_functions = Some functions\<rparr> of
              Inl e \<Rightarrow> (log, Inl e)
            | Inr response \<Rightarrow>
               (case msg_function_call response of
                  Some fc \<Rightarrow>
                    (case literal_eval (fc_arguments fc) of
                       Inl e \<Rightarrow> (log, Inl e)
                     | Inr arguments \<Rightarrow>
                         (log, Inr \<lparr>content = get_content (msg_content response),
                                    function_name = Present (fc_name fc),
                                    function_arguments = Present arguments,
                                    send_tokens = prompt_tokens response,
                                    recv_tokens = completion_tokens response,
                                    total_tokens = total_tokens_usage response\<rparr>))
                | None \<Rightarrow> (log, text_result response)))
         else
           (case create \<lparr>req_messages = messages, req_functions = None\<rparr> of
              Inl e \<Rightarrow> (log, Inl e)
            | Inr response \<Rightarrow> (log, text_result response)))"

subsection \<open>One attempt of the non-blocking call\<close>

text \<open>The loop of lines 209-212.\<close>

primrec valid_function :: "function_schema list \<Rightarrow> string \<Rightarrow> bool" where
  "valid_function [] fname = False"
| "valid_function (f # fs) fname =
     (if fs_name f = fname then True else valid_function fs fname)"

definition invalid_name_warning :: "string \<Rightarrow> string" where
  "invalid_name_warning fname =
     ''The returned function name '' @ fname @
     '' is not in the list of valid functions. Retrying...''"

definition invalid_name_message :: "string \<Rightarrow> string" where
  "invalid_name_message fname =
     ''The returned function name '' @ fname @
     '' is not in the list of valid functions.''"

definition invalid_json_warning :: string where
  "invalid_json_warning = ''The returned argument in function call is not valid json. Retrying...''"

definition invalid_json_message :: string where
  "invalid_json_message = ''The returned argument in function call is not valid json.''"

text \<open>
  Lines 220-241: the argument string is parsed; when that raises, the string goes
  through \<open>repair\<close> (\<^verbatim>\<open>JsonRepair(...).repair()\<close>, which may raise itself) once and
  the outcome is parsed again; the bare \<^verbatim>\<open>except\<close> turns every failure of that
  second try into the warning and the \<^verbatim>\<open>ValueError\<close>.
\<close>

definition parse_arguments ::
  "(string \<Rightarrow> error + 'v) \<Rightarrow> (string \<Rightarrow> error + string) \<Rightarrow> string \<Rightarrow>
   log_event list \<times> (error + 'v)" where
  "parse_arguments literal_eval repair s =
     (case literal_eval s of
        Inr arguments \<Rightarrow> ([], Inr arguments)
      | Inl _ \<Rightarrow>
         (case repair s of
            Inl _ \<Rightarrow> ([LogWarn invalid_json_warning], Inl (ValueError invalid_json_message))
          | Inr s' \<Rightarrow>
             (case literal_eval s' of
                Inr arguments \<Rightarrow> ([], Inr arguments)
              | Inl _ \<Rightarrow>
                  ([LogWarn invalid_json_warning], Inl (ValueError invalid_json_message)))))"

text \<open>The body of \<^verbatim>\<open>agenerate_response\<close> (lines 186-270), run once.\<close>

definition agenerate_response_body ::
  "(string \<Rightarrow> error + 'v) \<Rightarrow> (string \<Rightarrow> error + string) \<Rightarrow> (request \<Rightarrow> error + response) \<Rightarrow>
   string \<Rightarrow> message list \<Rightarrow> string \<Rightarrow> function_schema list \<Rightarrow> 'v outcome" where
  "agenerate_response_body literal_eval repair acreate prepend_prompt history append_prompt functions =
     (let messages = construct_messages prepend_prompt history append_prompt;
          log = [LogPrompt messages]
      in if functions \<noteq> [] then
           (case acreate \<lparr>req_messages = messages, req_functions = Some functions\<rparr> of
              Inl e \<Rightarrow> (log, Inl e)
            | Inr response \<Rightarrow>
               (case msg_function_call response of
                  Some fc \<Rightarrow>
                    (let fname = normalize_function_name (fc_name fc)
                     in if valid_function functions fname then
                          (case parse_arguments literal_eval repair (fc_arguments fc) of
                             (warns, Inl e) \<Rightarrow> (log @ warns, Inl e)
                           | (warns, Inr arguments) \<Rightarrow>
                               (log @ warns,
                                Inr \<lparr>content = Absent,
                                     function_name = Present fname,
                                     function_arguments = Present arguments,
                                     send_tokens = prompt_tokens response,
                                     recv_tokens = completion_tokens response,
                                     total_tokens = total_tokens_usage response\<rparr>))
                        else
                          (log @ [LogWarn (invalid_name_warning fname)],
                           Inl (ValueError (invalid_name_message fname))))
                | None \<Rightarrow> (log, text_result response)))
         else
           (case acreate \<lparr>req_messages = messages, req_functions = None\<rparr> of
              Inl e \<Rightarrow> (log, Inl e)
            | Inr response \<Rightarrow> (log, text_result response)))"

subsection \<open>The retry decorator\<close>

text \<open>
  \<^verbatim>\<open>@retry(stop=stop_after_attempt(20), wait=..., reraise=True)\<close> of tenacity, with
  its default \<^verbatim>\<open>retry=retry_if_exception_type(Exception)\<close>: attempts are numbered
  from 1; a value is returned at once; an exception that is not an \<^verbatim>\<open>Exception\<close>
  is raised at once; another exception is raised again when the attempt number has
  reached the bound, and otherwise the next attempt starts after the wait. \<open>fn n\<close> is
  the outcome of attempt \<open>n\<close>. The result holds the number of the last attempt made,
  the log of all attempts and what the caller gets. Waiting takes time only and is
  left out.
\<close>

function retry_from :: "nat \<Rightarrow> (nat \<Rightarrow> 'v outcome) \<Rightarrow> nat \<Rightarrow> nat \<times> 'v outcome" where
  "retry_from stop fn n =
     (case fn n of
        (log, Inr r) \<Rightarrow> (n, log, Inr r)
      | (log, Inl e) \<Rightarrow>
          (if is_Exception e \<and> n < stop then
             (case retry_from stop fn (Suc n) of (k, log', out) \<Rightarrow> (k, log @ log', out))
           else (n, log, Inl e)))"
  by pat_completeness auto
termination
  by (relation "measure (\<lambda>(stop, fn, n). stop - n)") auto

declare retry_from.simps [simp del]

definition stop_after_attempt :: nat where
  "stop_after_attempt = 20"

text \<open>
  The decorated functions. \<open>create n\<close> and \<open>acreate n\<close> are the remote call as it
  answers during attempt \<open>n\<close>.
\<close>

definition generate_response ::
  "(string \<Rightarrow> error + 'v) \<Rightarrow> (nat \<Rightarrow> request \<Rightarrow> error + response) \<Rightarrow>
   string \<Rightarrow> message list \<Rightarrow> string \<Rightarrow> function_schema list \<Rightarrow> nat \<times> 'v outcome" where
  "generate_response literal_eval create prepend_prompt history append_prompt functions =
     retry_from stop_after_attempt
       (\<lambda>n. generate_response_body literal_eval (create n)
               prepend_prompt history append_prompt functions) 1"

definition agenerate_response ::
  "(string \<Rightarrow> error + 'v) \<Rightarrow> (string \<Rightarrow> error + string) \<Rightarrow>
   (nat \<Rightarrow> request \<Rightarrow> error + response) \<Rightarrow>
   string \<Rightarrow> message list \<Rightarrow> string \<Rightarrow> function_schema list \<Rightarrow> nat \<times> 'v outcome" where
  "agenerate_response literal_eval repair acreate prepend_prompt history append_prompt functions =
     retry_from stop_after_attempt
       (\<lambda>n. agenerate_response_body literal_eval repair (acreate n)
               prepend_prompt history append_prompt functions) 1"

section \<open>Message assembly\<close>

text \<open>
  C7 (identity law). For every history, \<^verbatim>\<open>construct_messages("", history, "")\<close> is
  the history itself: no system message in front, no user message behind, and for the
  empty history the empty list the function starts from.
\<close>

theorem construct_messages_identity:
  "construct_messages '''' history '''' = history"
  by (simp add: construct_messages_def)

text \<open>
  C8. For every non-empty \<open>prepend_prompt\<close>, whatever the history and the
  \<open>append_prompt\<close>, the first element of the assembled sequence is the dictionary
  with role \<^verbatim>\<open>system\<close> and content \<open>prepend_prompt\<close>.
\<close>

theorem construct_messages_system_first:
  assumes "prepend_prompt \<noteq> ''''"
  shows "(\<exists>rest. construct_messages prepend_prompt history append_prompt =
                  system_message prepend_prompt # rest)
         \<and> system_message prepend_prompt ''role'' = Some ''system''
         \<and> system_message prepend_prompt ''content'' = Some prepend_prompt
         \<and> dom (system_message prepend_prompt) = {''role'', ''content''}"
  using assms by (auto simp: construct_messages_def Let_def system_message_def)

theorem construct_messages_system_first_witness:
  "''You are a bot'' \<noteq> ''''
   \<and> (\<exists>rest. construct_messages ''You are a bot'' [user_message ''earlier''] ''hi'' =
                system_message ''You are a bot'' # rest)
   \<and> system_message ''You are a bot'' ''role'' = Some ''system''
   \<and> system_message ''You are a bot'' ''content'' = Some ''You are a bot''"
  using construct_messages_system_first
          [of "''You are a bot''" "[user_message ''earlier'']" "''hi''"]
  by simp

text \<open>The assembled sequence in one expression, and its length.\<close>

lemma construct_messages_eq:
  "construct_messages prepend_prompt history append_prompt =
     (if prepend_prompt \<noteq> '''' then [system_message prepend_prompt] else []) @ history @
     (if append_prompt \<noteq> '''' then [user_message append_prompt] else [])"
  by (simp add: construct_messages_def Let_def)

lemma length_construct_messages:
  "length (construct_messages prepend_prompt history append_prompt) =
     length history + (if prepend_prompt \<noteq> '''' then 1 else 0)
                    + (if append_prompt \<noteq> '''' then 1 else 0)"
  by (simp add: construct_messages_eq)

subsection \<open>On the store\<close>

lemma list_at_Some_less: "list_at h a = Some xs \<Longrightarrow> a < length h"
  by (simp add: list_at_def split: if_splits)

lemma list_at_Some_nth: "list_at h a = Some xs \<Longrightarrow> h ! a = ListObj xs"
  by (simp add: list_at_def split: if_splits obj.splits)

text \<open>
  What the call leaves behind: the store it was given, then the new list, then the new
  dictionaries. The new list is at the address \<open>length h\<close>.
\<close>

lemma construct_messages_st_eq:
  assumes "list_at h history = Some hs"
  shows "construct_messages_st h prepend_prompt history append_prompt =
    Some (length h,
      h @ [ListObj ((if prepend_prompt \<noteq> '''' then [Suc (length h)] else []) @ hs @
             (if append_prompt \<noteq> '''' then
                [if prepend_prompt \<noteq> '''' then Suc (Suc (length h)) else Suc (length h)]
              else []))]
        @ (if prepend_prompt \<noteq> '''' then [DictObj (system_message prepend_prompt)] else [])
        @ (if append_prompt \<noteq> '''' then [DictObj (user_message append_prompt)] else []))"
proof -
  have "history < length h" and "h ! history = ListObj hs"
    using assms by (rule list_at_Some_less, rule list_at_Some_nth)
  then show ?thesis
    by (simp add: construct_messages_st_def alloc_def list_append_def list_extend_def
        list_at_def nth_append list_update_append Let_def)
qed

text \<open>
  C10 (frame). When \<open>history\<close> is the address of a list holding the references
  \<open>hs\<close>, the call returns the address of a list that is not the caller's; every object
  of the caller's store, the history list and the dictionaries it refers to among them,
  is what it was; the new list holds a new system dictionary if \<open>prepend_prompt\<close> is
  not empty, then the very references \<open>hs\<close> in their order, then a new user dictionary
  if \<open>append_prompt\<close> is not empty; and its length is the length of the history plus
  one for each prompt that is not empty.
\<close>

theorem construct_messages_frame:
  assumes "list_at h history = Some hs"
  shows "\<exists>messages h' pre post.
           construct_messages_st h prepend_prompt history append_prompt = Some (messages, h')
         \<and> take (length h) h' = h
         \<and> list_at h' history = Some hs
         \<and> messages \<noteq> history
         \<and> length h \<le> messages
         \<and> list_at h' messages = Some (pre @ hs @ post)
         \<and> list_all (\<lambda>d. length h < d) (pre @ post)
         \<and> map (dict_at h') pre =
               (if prepend_prompt \<noteq> '''' then [Some (system_message prepend_prompt)] else [])
         \<and> map (dict_at h') post =
               (if append_prompt \<noteq> '''' then [Some (user_message append_prompt)] else [])
         \<and> length (pre @ hs @ post) =
               length hs + (if prepend_prompt \<noteq> '''' then 1 else 0)
                         + (if append_prompt \<noteq> '''' then 1 else 0)"
proof -
  have lt: "history < length h" using assms by (rule list_at_Some_less)
  have nth: "h ! history = ListObj hs" using assms by (rule list_at_Some_nth)
  let ?pre = "if prepend_prompt \<noteq> '''' then [Suc (length h)] else []"
  let ?post = "if append_prompt \<noteq> '''' then
                 [if prepend_prompt \<noteq> '''' then Suc (Suc (length h)) else Suc (length h)]
               else []"
  let ?h' = "h @ [ListObj (?pre @ hs @ ?post)]
        @ (if prepend_prompt \<noteq> '''' then [DictObj (system_message prepend_prompt)] else [])
        @ (if append_prompt \<noteq> '''' then [DictObj (user_message append_prompt)] else [])"
  have run: "construct_messages_st h prepend_prompt history append_prompt = Some (length h, ?h')"
    using construct_messages_st_eq [OF assms] by simp
  have frame: "take (length h) ?h' = h" by simp
  have hist: "list_at ?h' history = Some hs"
    using lt nth by (simp add: list_at_def nth_append)
  have new: "list_at ?h' (length h) = Some (?pre @ hs @ ?post)"
    by (simp add: list_at_def nth_append)
  have fresh: "list_all (\<lambda>d. length h < d) (?pre @ ?post)" by simp
  have pre: "map (dict_at ?h') ?pre =
               (if prepend_prompt \<noteq> '''' then [Some (system_message prepend_prompt)] else [])"
    by (simp add: dict_at_def nth_append)
  have post: "map (dict_at ?h') ?post =
               (if append_prompt \<noteq> '''' then [Some (user_message append_prompt)] else [])"
    by (simp add: dict_at_def nth_append)
  have len: "length (?pre @ hs @ ?post) =
               length hs + (if prepend_prompt \<noteq> '''' then 1 else 0)
                         + (if append_prompt \<noteq> '''' then 1 else 0)"
    by simp
  from lt have ne: "length h \<noteq> history" by simp
  show ?thesis
    apply (rule exI [of _ "length h"], rule exI [of _ ?h'])
    apply (rule exI [of _ ?pre], rule exI [of _ ?post])
    using run frame hist new fresh pre post len ne by blast
qed

theorem construct_messages_frame_witness:
  "list_at [DictObj (user_message ''earlier''), ListObj [0]] 1 = Some [0]
   \<and> (\<exists>messages h' pre post.
         construct_messages_st [DictObj (user_message ''earlier''), ListObj [0]]
             ''You are a bot'' 1 ''hi'' = Some (messages, h')
       \<and> take (length [DictObj (user_message ''earlier''), ListObj [0]]) h' =
             [DictObj (user_message ''earlier''), ListObj [0]]
       \<and> list_at h' 1 = Some [0]
       \<and> messages \<noteq> 1
       \<and> length [DictObj (user_message ''earlier''), ListObj [0]] \<le> messages
       \<and> list_at h' messages = Some (pre @ [0] @ post)
       \<and> list_all (\<lambda>d. length [DictObj (user_message ''earlier''), ListObj [0]] < d)
             (pre @ post)
       \<and> map (dict_at h') pre =
             (if ''You are a bot'' \<noteq> '''' then [Some (system_message ''You are a bot'')]
              else [])
       \<and> map (dict_at h') post =
             (if ''hi'' \<noteq> '''' then [Some (user_message ''hi'')] else [])
       \<and> length (pre @ [0] @ post) =
             length [0::nat] + (if ''You are a bot'' \<noteq> '''' then 1 else 0)
                             + (if ''hi'' \<noteq> '''' then 1 else 0))"
proof -
  have h: "list_at [DictObj (user_message ''earlier''), ListObj [0]] 1 = Some [0]"
    by (simp add: list_at_def)
  show ?thesis
    by (rule conjI, rule h, rule construct_messages_frame [OF h])
qed

text \<open>
  The list built on the store holds, dictionary for dictionary, what
  \<open>construct_messages\<close> computes from the dictionaries of the history.
\<close>

lemma construct_messages_st_refines:
  assumes "list_at h history = Some hs" and "map (dict_at h) hs = map Some ms"
  shows "\<exists>h' xs. construct_messages_st h prepend_prompt history append_prompt =
                    Some (length h, h')
               \<and> list_at h' (length h) = Some xs
               \<and> map (dict_at h') xs =
                   map Some (construct_messages prepend_prompt ms append_prompt)"
proof -
  have old: "dict_at (h @ ys) d = dict_at h d" if "d \<in> set hs" for d ys
  proof -
    from that assms(2) have "dict_at h d \<in> set (map Some ms)"
      by (metis image_eqI set_map)
    then have "dict_at h d \<noteq> None" by auto
    then have "d < length h" by (auto simp: dict_at_def split: if_splits)
    then show ?thesis by (simp add: dict_at_def nth_append)
  qed
  have keep: "map (dict_at (h @ ys)) hs = map Some ms" for ys
    using assms(2) old by (metis (no_types, lifting) map_eq_conv)
  show ?thesis
    unfolding construct_messages_st_eq [OF assms(1)] construct_messages_eq
    using keep
    by (auto simp: list_at_def dict_at_def nth_append simp del: append_assoc
          simp add: append_assoc [symmetric])
qed

section \<open>The retry loop\<close>

lemma retry_from_returns:
  "fn n = (l, Inr r) \<Longrightarrow> retry_from stop fn n = (n, l, Inr r)"
  by (subst retry_from.simps) simp

lemma retry_from_raises:
  "fn n = (l, Inl e) \<Longrightarrow> \<not> is_Exception e \<or> stop \<le> n \<Longrightarrow>
   retry_from stop fn n = (n, l, Inl e)"
  by (subst retry_from.simps) auto

lemma retry_from_again:
  "fn n = (l, Inl e) \<Longrightarrow> is_Exception e \<Longrightarrow> n < stop \<Longrightarrow>
   retry_from stop fn n =
     (fst (retry_from stop fn (Suc n)), l @ fst (snd (retry_from stop fn (Suc n))),
      snd (snd (retry_from stop fn (Suc n))))"
  by (subst retry_from.simps) (simp split: prod.splits)

text \<open>
  When the attempts \<open>n, \<dots>, k - 1\<close> raise an \<^verbatim>\<open>Exception\<close> and the loop stops at
  attempt \<open>k\<close>, attempt \<open>k\<close> is the last one made, the log is the log of the attempts
  \<open>n, \<dots>, k\<close> in order, and the caller gets what attempt \<open>k\<close> gave.
\<close>

lemma retry_from_prefix:
  assumes "\<And>i. n \<le> i \<Longrightarrow> i < k \<Longrightarrow> \<exists>l e. fn i = (l, Inl e) \<and> is_Exception e"
    and "n \<le> k" and "k \<le> stop" and "retry_from stop fn k = (k, fn k)"
  shows "retry_from stop fn n =
           (k, concat (map (\<lambda>i. fst (fn i)) [n..<Suc k]), snd (fn k))"
  using assms
proof (induction "k - n" arbitrary: n)
  case 0
  then have "n = k" by simp
  with 0 show ?case by simp
next
  case (Suc d)
  then have lt: "n < k" by simp
  then obtain l e where f: "fn n = (l, Inl e)" "is_Exception e"
    using Suc.prems(1) [of n] by auto
  have step: "retry_from stop fn (Suc n) =
           (k, concat (map (\<lambda>i. fst (fn i)) [Suc n..<Suc k]), snd (fn k))"
    using Suc.hyps(1) [of "Suc n"] Suc.hyps(2) Suc.prems lt by auto
  have "n < stop" using lt Suc.prems(3) by simp
  from retry_from_again [where fn = fn and n = n, OF f this] step lt f show ?case
    by (simp add: upt_conv_Cons del: upt_Suc)
qed

text \<open>The loop never goes beyond the bound: the last attempt has a number up to \<open>stop\<close>.\<close>

lemma retry_from_bound: "fst (retry_from stop fn n) \<le> max stop n"
proof (induction stop fn n rule: retry_from.induct)
  case (1 stop fn n)
  obtain l out where f: "fn n = (l, out)" by (cases "fn n")
  show ?case
  proof (cases out)
    case (Inr r)
    with f show ?thesis by (simp add: retry_from_returns)
  next
    case (Inl e)
    show ?thesis
    proof (cases "is_Exception e \<and> n < stop")
      case True
      then have "fst (retry_from stop fn (Suc n)) \<le> max stop (Suc n)"
        using "1.IH" [OF f [symmetric] Inl] by simp
      with True f Inl show ?thesis by (simp add: retry_from_again)
    next
      case False
      then have "\<not> is_Exception e \<or> stop \<le> n" by auto
      with f Inl show ?thesis by (simp add: retry_from_raises)
    qed
  qed
qed

lemma retry_from_all_fail:
  assumes "\<And>i. \<exists>l e. fn i = (l, Inl e) \<and> is_Exception e" and "n \<le> stop"
  shows "retry_from stop fn n =
           (stop, concat (map (\<lambda>i. fst (fn i)) [n..<Suc stop]), snd (fn stop))"
proof -
  obtain l e where f: "fn stop = (l, Inl e)" using assms(1) by blast
  have "retry_from stop fn stop = (stop, fn stop)"
    using retry_from_raises [where fn = fn and n = stop and stop = stop, OF f] f by simp
  with assms show ?thesis by (intro retry_from_prefix) auto
qed

lemma retry_from_interrupted:
  assumes "\<And>i. n \<le> i \<Longrightarrow> i < k \<Longrightarrow> \<exists>l e. fn i = (l, Inl e) \<and> is_Exception e"
    and "n \<le> k" and "k \<le> stop" and "fn k = (l, Inl e)" and "\<not> is_Exception e"
  shows "retry_from stop fn n =
           (k, concat (map (\<lambda>i. fst (fn i)) [n..<Suc k]), Inl e)"
proof -
  have "retry_from stop fn k = (k, fn k)"
    using retry_from_raises [where fn = fn and n = k and stop = stop, OF assms(4)] assms(4,5)
    by simp
  from retry_from_prefix [where fn = fn, OF assms(1) assms(2,3) this] assms(4)
  show ?thesis by simp
qed

subsection \<open>A dispatch that raises\<close>

lemma generate_response_body_dispatch_error:
  assumes "\<And>req. create req = Inl e"
  shows "generate_response_body literal_eval create prepend_prompt history append_prompt functions =
           ([LogPrompt (construct_messages prepend_prompt history append_prompt)], Inl e)"
  by (simp add: generate_response_body_def Let_def assms)

lemma agenerate_response_body_dispatch_error:
  assumes "\<And>req. acreate req = Inl e"
  shows "agenerate_response_body literal_eval repair acreate prepend_prompt history append_prompt
           functions =
           ([LogPrompt (construct_messages prepend_prompt history append_prompt)], Inl e)"
  by (simp add: agenerate_response_body_def Let_def assms)

subsection \<open>The log of an attempt\<close>

lemma generate_response_body_log:
  "fst (generate_response_body literal_eval create prepend_prompt history append_prompt functions)
     = [LogPrompt (construct_messages prepend_prompt history append_prompt)]"
  by (simp add: generate_response_body_def Let_def split: sum.splits option.splits)

lemma parse_arguments_no_prompt:
  "filter is_prompt (fst (parse_arguments literal_eval repair s)) = []"
  by (simp add: parse_arguments_def split: sum.splits)

lemma agenerate_response_body_prompts:
  "filter is_prompt
     (fst (agenerate_response_body literal_eval repair acreate prepend_prompt history
             append_prompt functions))
     = [LogPrompt (construct_messages prepend_prompt history append_prompt)]"
proof -
  have p: "filter is_prompt warns = []"
    if "parse_arguments literal_eval repair s = (warns, out)" for s warns out
    using parse_arguments_no_prompt [of literal_eval repair s] that by simp
  show ?thesis
    by (auto simp: agenerate_response_body_def Let_def p
        split: sum.splits option.splits prod.splits)
qed

lemma filter_concat_single:
  assumes "\<And>i. filter P (g i) = [x]"
  shows "filter P (concat (map g xs)) = replicate (length xs) x"
  by (induction xs) (simp_all add: assms)

text \<open>
  C3 (retry bound). When every attempt of the blocking call raises an exception that
  the decorator retries, the attempts 1 to 20 are run, one after the other, and no
  further one: the log of the call is the log of these twenty attempts, twenty prompt
  events; and the caller gets the exception of attempt 20, not a result. The same holds
  of the non-blocking call.
\<close>

theorem retry_stops_after_20_failures:
  "((\<forall>n. \<exists>l e. generate_response_body literal_eval (create n) prepend_prompt history
                  append_prompt functions = (l, Inl e) \<and> is_Exception e) \<longrightarrow>
      fst (generate_response literal_eval create prepend_prompt history append_prompt functions)
        = 20
    \<and> fst (snd (generate_response literal_eval create prepend_prompt history append_prompt
                  functions))
        = concat (map (\<lambda>n. fst (generate_response_body literal_eval (create n) prepend_prompt
                                   history append_prompt functions)) [1..<Suc 20])
    \<and> fst (snd (generate_response literal_eval create prepend_prompt history append_prompt
                  functions))
        = replicate 20 (LogPrompt (construct_messages prepend_prompt history append_prompt))
    \<and> snd (snd (generate_response literal_eval create prepend_prompt history append_prompt
                  functions))
        = snd (generate_response_body literal_eval (create 20) prepend_prompt history
                 append_prompt functions)
    \<and> (\<exists>e. snd (snd (generate_response literal_eval create prepend_prompt history
                        append_prompt functions)) = Inl e))
   \<and> ((\<forall>n. \<exists>l e. agenerate_response_body literal_eval repair (acreate n) prepend_prompt
                     history append_prompt functions = (l, Inl e) \<and> is_Exception e) \<longrightarrow>
      fst (agenerate_response literal_eval repair acreate prepend_prompt history append_prompt
             functions) = 20
    \<and> fst (snd (agenerate_response literal_eval repair acreate prepend_prompt history
                  append_prompt functions))
        = concat (map (\<lambda>n. fst (agenerate_response_body literal_eval repair (acreate n)
                                   prepend_prompt history append_prompt functions))
                      [1..<Suc 20])
    \<and> filter is_prompt
         (fst (snd (agenerate_response literal_eval repair acreate prepend_prompt history
                      append_prompt functions)))
        = replicate 20 (LogPrompt (construct_messages prepend_prompt history append_prompt))
    \<and> snd (snd (agenerate_response literal_eval repair acreate prepend_prompt history
                  append_prompt functions))
        = snd (agenerate_response_body literal_eval repair (acreate 20) prepend_prompt history
                 append_prompt functions)
    \<and> (\<exists>e. snd (snd (agenerate_response literal_eval repair acreate prepend_prompt history
                        append_prompt functions)) = Inl e))"
proof (intro conjI impI)
  let ?f = "\<lambda>n. generate_response_body literal_eval (create n) prepend_prompt history
                  append_prompt functions"
  assume a: "\<forall>n. \<exists>l e. ?f n = (l, Inl e) \<and> is_Exception e"
  then have r: "retry_from 20 ?f 1 =
                  (20, concat (map (\<lambda>i. fst (?f i)) [1..<Suc 20]), snd (?f 20))"
    by (intro retry_from_all_fail) auto
  show "fst (generate_response literal_eval create prepend_prompt history append_prompt
               functions) = 20"
    by (simp only: generate_response_def stop_after_attempt_def r fst_conv)
  show l: "fst (snd (generate_response literal_eval create prepend_prompt history append_prompt
                    functions)) = concat (map (\<lambda>n. fst (?f n)) [1..<Suc 20])"
    by (simp only: generate_response_def stop_after_attempt_def r fst_conv snd_conv)
  have "concat (map (\<lambda>n. fst (?f n)) [1..<Suc 20]) =
          concat (map (\<lambda>n. [LogPrompt (construct_messages prepend_prompt history
                                          append_prompt)]) [1..<Suc 20])"
    by (simp only: generate_response_body_log)
  also have "\<dots> = replicate 20 (LogPrompt (construct_messages prepend_prompt history
                                             append_prompt))"
    using filter_concat_single [where P = "\<lambda>x. True"
            and g = "\<lambda>n :: nat. [LogPrompt (construct_messages prepend_prompt history
                                               append_prompt)]"
            and xs = "[1..<Suc 20]"]
    by simp
  finally show "fst (snd (generate_response literal_eval create prepend_prompt history
                            append_prompt functions))
        = replicate 20 (LogPrompt (construct_messages prepend_prompt history append_prompt))"
    using l by simp
  show "snd (snd (generate_response literal_eval create prepend_prompt history append_prompt
                    functions)) = snd (?f 20)"
    by (simp only: generate_response_def stop_after_attempt_def r snd_conv)
  then show "\<exists>e. snd (snd (generate_response literal_eval create prepend_prompt history
                             append_prompt functions)) = Inl e"
    using a by (metis snd_conv)
next
  let ?f = "\<lambda>n. agenerate_response_body literal_eval repair (acreate n) prepend_prompt history
                  append_prompt functions"
  assume a: "\<forall>n. \<exists>l e. ?f n = (l, Inl e) \<and> is_Exception e"
  then have r: "retry_from 20 ?f 1 =
                  (20, concat (map (\<lambda>i. fst (?f i)) [1..<Suc 20]), snd (?f 20))"
    by (intro retry_from_all_fail) auto
  show "fst (agenerate_response literal_eval repair acreate prepend_prompt history append_prompt
               functions) = 20"
    by (simp only: agenerate_response_def stop_after_attempt_def r fst_conv)
  show l: "fst (snd (agenerate_response literal_eval repair acreate prepend_prompt history
                    append_prompt functions)) = concat (map (\<lambda>n. fst (?f n)) [1..<Suc 20])"
    by (simp only: agenerate_response_def stop_after_attempt_def r fst_conv snd_conv)
  have "filter is_prompt (concat (map (\<lambda>n. fst (?f n)) [1..<Suc 20])) =
          replicate (length [1..<Suc 20])
            (LogPrompt (construct_messages prepend_prompt history append_prompt))"
    by (rule filter_concat_single) (rule agenerate_response_body_prompts)
  then show "filter is_prompt
         (fst (snd (agenerate_response literal_eval repair acreate prepend_prompt history
                      append_prompt functions)))
        = replicate 20 (LogPrompt (construct_messages prepend_prompt history append_prompt))"
    using l by simp
  show "snd (snd (agenerate_response literal_eval repair acreate prepend_prompt history
                    append_prompt functions)) = snd (?f 20)"
    by (simp only: agenerate_response_def stop_after_attempt_def r snd_conv)
  then show "\<exists>e. snd (snd (agenerate_response literal_eval repair acreate prepend_prompt
                             history append_prompt functions)) = Inl e"
    using a by (metis snd_conv)
qed

text \<open>
  The remote service answers every request of every attempt with a rate-limit error:
  both calls run twenty attempts and stop with that error.
\<close>

theorem retry_stops_after_20_failures_witness:
  "fst (generate_response (\<lambda>s. Inl (LiteralError s) :: error + unit)
          (\<lambda>n req. Inl (OpenAIError ''rate limit'')) ''You are a bot'' [] ''hi'' []) = 20
   \<and> fst (snd (generate_response (\<lambda>s. Inl (LiteralError s) :: error + unit)
          (\<lambda>n req. Inl (OpenAIError ''rate limit'')) ''You are a bot'' [] ''hi'' []))
       = replicate 20 (LogPrompt [system_message ''You are a bot'', user_message ''hi''])
   \<and> snd (snd (generate_response (\<lambda>s. Inl (LiteralError s) :: error + unit)
          (\<lambda>n req. Inl (OpenAIError ''rate limit'')) ''You are a bot'' [] ''hi'' []))
       = Inl (OpenAIError ''rate limit'')
   \<and> fst (agenerate_response (\<lambda>s. Inl (LiteralError s) :: error + unit) (\<lambda>s. Inr s)
          (\<lambda>n req. Inl (OpenAIError ''rate limit'')) ''You are a bot'' [] ''hi'' []) = 20
   \<and> filter is_prompt
        (fst (snd (agenerate_response (\<lambda>s. Inl (LiteralError s) :: error + unit) (\<lambda>s. Inr s)
           (\<lambda>n req. Inl (OpenAIError ''rate limit'')) ''You are a bot'' [] ''hi'' [])))
       = replicate 20 (LogPrompt [system_message ''You are a bot'', user_message ''hi''])
   \<and> snd (snd (agenerate_response (\<lambda>s. Inl (LiteralError s) :: error + unit) (\<lambda>s. Inr s)
          (\<lambda>n req. Inl (OpenAIError ''rate limit'')) ''You are a bot'' [] ''hi'' []))
       = Inl (OpenAIError ''rate limit'')"
proof -
  let ?lit = "\<lambda>s. Inl (LiteralError s) :: error + unit"
  let ?rep = "\<lambda>s :: string. Inr s :: error + string"
  let ?remote = "\<lambda>(n :: nat) (req :: request). Inl (OpenAIError ''rate limit'') :: error + response"
  have m: "construct_messages ''You are a bot'' [] ''hi'' = [system_message ''You are a bot'', user_message ''hi'']"
    by (simp add: construct_messages_def)
  have b: "generate_response_body ?lit (?remote 1) ''You are a bot'' [] ''hi'' [] =
             ([LogPrompt (construct_messages ''You are a bot'' [] ''hi'')], Inl (OpenAIError ''rate limit''))"
    by (rule generate_response_body_dispatch_error) simp
  have a: "agenerate_response_body ?lit ?rep (?remote 1) ''You are a bot'' [] ''hi'' [] =
             ([LogPrompt (construct_messages ''You are a bot'' [] ''hi'')], Inl (OpenAIError ''rate limit''))"
    by (rule agenerate_response_body_dispatch_error) simp
  note t = retry_stops_after_20_failures
             [of ?lit ?remote "''You are a bot''" "[]" "''hi''" "[]" ?rep ?remote]
  have hb: "\<forall>n. \<exists>l e. generate_response_body ?lit (?remote n) ''You are a bot'' [] ''hi'' [] = (l, Inl e)
                       \<and> is_Exception e"
    by (simp add: b)
  have ha: "\<forall>n. \<exists>l e. agenerate_response_body ?lit ?rep (?remote n) ''You are a bot'' [] ''hi'' [] = (l, Inl e)
                       \<and> is_Exception e"
    by (simp add: a)
  have b1: "fst (generate_response ?lit ?remote ''You are a bot'' [] ''hi'' []) = 20"
    using t hb by blast
  have b2: "fst (snd (generate_response ?lit ?remote ''You are a bot'' [] ''hi'' [])) =
              replicate 20 (LogPrompt (construct_messages ''You are a bot'' [] ''hi''))"
    using t hb by blast
  have b3: "snd (snd (generate_response ?lit ?remote ''You are a bot'' [] ''hi'' [])) =
              snd (generate_response_body ?lit (?remote 20) ''You are a bot'' [] ''hi'' [])"
    using t hb by blast
  have a1: "fst (agenerate_response ?lit ?rep ?remote ''You are a bot'' [] ''hi'' []) = 20"
    using t ha by blast
  have a2: "filter is_prompt (fst (snd (agenerate_response ?lit ?rep ?remote ''You are a bot'' [] ''hi'' []))) =
              replicate 20 (LogPrompt (construct_messages ''You are a bot'' [] ''hi''))"
    using t ha by blast
  have a3: "snd (snd (agenerate_response ?lit ?rep ?remote ''You are a bot'' [] ''hi'' [])) =
              snd (agenerate_response_body ?lit ?rep (?remote 20) ''You are a bot'' [] ''hi'' [])"
    using t ha by blast
  show ?thesis
    by (simp only: b1 b2 b3 a1 a2 a3 a b m snd_conv simp_thms)
qed

text \<open>
  Whatever the attempts give, neither call makes more than 20 of them.
\<close>

lemma at_most_20_attempts:
  "fst (generate_response literal_eval create prepend_prompt history append_prompt functions)
     \<le> 20"
  "fst (agenerate_response literal_eval repair acreate prepend_prompt history append_prompt
          functions) \<le> 20"
  unfolding generate_response_def agenerate_response_def stop_after_attempt_def
  using retry_from_bound [where stop = 20 and n = 1] by (simp_all add: max_def)

text \<open>
  An interruption of the remote call. When the attempts before attempt \<open>k\<close> raise exceptions that are
  retried and the remote call of attempt \<open>k\<close> raises \<^verbatim>\<open>KeyboardInterrupt\<close>, with
  \<open>k\<close> between 1 and 20, attempt \<open>k\<close> is the last attempt and the caller gets the
  \<^verbatim>\<open>KeyboardInterrupt\<close>; in the blocking and in the non-blocking call.
\<close>

lemma remote_interrupt_is_not_retried:
  "(1 \<le> k \<and> k \<le> 20
    \<and> (\<forall>i. 1 \<le> i \<and> i < k \<longrightarrow>
          (\<exists>l e. generate_response_body literal_eval (create i) prepend_prompt history
                    append_prompt functions = (l, Inl e) \<and> is_Exception e))
    \<and> (\<forall>req. create k req = Inl KeyboardInterrupt) \<longrightarrow>
      fst (generate_response literal_eval create prepend_prompt history append_prompt functions)
        = k
    \<and> snd (snd (generate_response literal_eval create prepend_prompt history append_prompt
                  functions)) = Inl KeyboardInterrupt)
   \<and> (1 \<le> k \<and> k \<le> 20
    \<and> (\<forall>i. 1 \<le> i \<and> i < k \<longrightarrow>
          (\<exists>l e. agenerate_response_body literal_eval repair (acreate i) prepend_prompt history
                    append_prompt functions = (l, Inl e) \<and> is_Exception e))
    \<and> (\<forall>req. acreate k req = Inl KeyboardInterrupt) \<longrightarrow>
      fst (agenerate_response literal_eval repair acreate prepend_prompt history append_prompt
             functions) = k
    \<and> snd (snd (agenerate_response literal_eval repair acreate prepend_prompt history
                  append_prompt functions)) = Inl KeyboardInterrupt)"
proof (intro conjI impI)
  let ?f = "\<lambda>n. generate_response_body literal_eval (create n) prepend_prompt history
                  append_prompt functions"
  assume a: "1 \<le> k \<and> k \<le> 20
    \<and> (\<forall>i. 1 \<le> i \<and> i < k \<longrightarrow> (\<exists>l e. ?f i = (l, Inl e) \<and> is_Exception e))
    \<and> (\<forall>req. create k req = Inl KeyboardInterrupt)"
  then have last: "?f k = ([LogPrompt (construct_messages prepend_prompt history append_prompt)],
                           Inl KeyboardInterrupt)"
    by (intro generate_response_body_dispatch_error) simp
  have r: "retry_from 20 ?f 1 =
             (k, concat (map (\<lambda>i. fst (?f i)) [1..<Suc k]), Inl KeyboardInterrupt)"
    using a by (intro retry_from_interrupted [where fn = ?f, OF _ _ _ last]) auto
  show "fst (generate_response literal_eval create prepend_prompt history append_prompt
               functions) = k"
    by (simp only: generate_response_def stop_after_attempt_def r fst_conv)
  show "snd (snd (generate_response literal_eval create prepend_prompt history append_prompt
                    functions)) = Inl KeyboardInterrupt"
    by (simp only: generate_response_def stop_after_attempt_def r snd_conv)
next
  let ?f = "\<lambda>n. agenerate_response_body literal_eval repair (acreate n) prepend_prompt history
                  append_prompt functions"
  assume a: "1 \<le> k \<and> k \<le> 20
    \<and> (\<forall>i. 1 \<le> i \<and> i < k \<longrightarrow> (\<exists>l e. ?f i = (l, Inl e) \<and> is_Exception e))
    \<and> (\<forall>req. acreate k req = Inl KeyboardInterrupt)"
  then have last: "?f k = ([LogPrompt (construct_messages prepend_prompt history append_prompt)],
                           Inl KeyboardInterrupt)"
    by (intro agenerate_response_body_dispatch_error) simp
  have r: "retry_from 20 ?f 1 =
             (k, concat (map (\<lambda>i. fst (?f i)) [1..<Suc k]), Inl KeyboardInterrupt)"
    using a by (intro retry_from_interrupted [where fn = ?f, OF _ _ _ last]) auto
  show "fst (agenerate_response literal_eval repair acreate prepend_prompt history append_prompt
               functions) = k"
    by (simp only: agenerate_response_def stop_after_attempt_def r fst_conv)
  show "snd (snd (agenerate_response literal_eval repair acreate prepend_prompt history
                    append_prompt functions)) = Inl KeyboardInterrupt"
    by (simp only: agenerate_response_def stop_after_attempt_def r snd_conv)
qed

text \<open>
  Two timeouts, then an interruption during the third remote call: three attempts are
  made, not twenty.
\<close>

lemma remote_interrupt_example:
  "fst (generate_response (\<lambda>s. Inl (LiteralError s) :: error + unit)
          (\<lambda>n req. if n = 3 then Inl KeyboardInterrupt else Inl (OpenAIError ''timeout''))
          ''You are a bot'' [] ''hi'' []) = 3
   \<and> snd (snd (generate_response (\<lambda>s. Inl (LiteralError s) :: error + unit)
          (\<lambda>n req. if n = 3 then Inl KeyboardInterrupt else Inl (OpenAIError ''timeout''))
          ''You are a bot'' [] ''hi'' [])) = Inl KeyboardInterrupt
   \<and> fst (agenerate_response (\<lambda>s. Inl (LiteralError s) :: error + unit) (\<lambda>s. Inr s)
          (\<lambda>n req. if n = 3 then Inl KeyboardInterrupt else Inl (OpenAIError ''timeout''))
          ''You are a bot'' [] ''hi'' []) = 3
   \<and> snd (snd (agenerate_response (\<lambda>s. Inl (LiteralError s) :: error + unit) (\<lambda>s. Inr s)
          (\<lambda>n req. if n = 3 then Inl KeyboardInterrupt else Inl (OpenAIError ''timeout''))
          ''You are a bot'' [] ''hi'' [])) = Inl KeyboardInterrupt"
  using remote_interrupt_is_not_retried
          [of 3 "\<lambda>s. Inl (LiteralError s) :: error + unit"
              "\<lambda>n req. if n = 3 then Inl KeyboardInterrupt else Inl (OpenAIError ''timeout'')"
              "''You are a bot''" "[]" "''hi''" "[]" "\<lambda>s. Inr s"
              "\<lambda>n req. if n = 3 then Inl KeyboardInterrupt else Inl (OpenAIError ''timeout'')"]
  by (simp add: generate_response_body_def agenerate_response_body_def)

section \<open>Function names\<close>

lemma startswith_iff: "startswith s p \<longleftrightarrow> take (length p) s = p"
  by (induction s p rule: startswith.induct) auto

lemma valid_function_iff: "valid_function fs n \<longleftrightarrow> n \<in> fs_name ` set fs"
  by (induction fs) auto

text \<open>The three names of the specification's example all become \<^verbatim>\<open>lookup\<close>.\<close>

lemma normalize_function_name_examples:
  "normalize_function_name ''functions.lookup'' = ''lookup''"
  "normalize_function_name ''function.lookup'' = ''lookup''"
  "normalize_function_name ''lookup'' = ''lookup''"
  by (simp_all add: normalize_function_name_def)

text \<open>A name that starts with neither prefix is left as it is.\<close>

lemma normalize_function_name_other:
  "\<not> startswith n ''function.'' \<Longrightarrow> \<not> startswith n ''functions.'' \<Longrightarrow>
   normalize_function_name n = n"
  by (simp add: normalize_function_name_def)

text \<open>
  C5. The normalisation tests for a leading \<^verbatim>\<open>function.\<close> and then calls
  \<^verbatim>\<open>str.replace\<close>, which removes every occurrence and not the leading one only:
  \<^verbatim>\<open>function.my_function.run\<close> becomes \<^verbatim>\<open>my_run\<close>, where stripping the prefix
  gives \<^verbatim>\<open>my_function.run\<close>; \<^verbatim>\<open>functions.functions.lookup\<close> becomes
  \<^verbatim>\<open>lookup\<close>, where stripping the prefix gives \<^verbatim>\<open>functions.lookup\<close>.
\<close>

theorem normalize_function_name_removes_inner_occurrences:
  "normalize_function_name ''function.my_function.run'' = ''my_run''
   \<and> normalize_function_name ''function.my_function.run'' \<noteq> ''my_function.run''
   \<and> normalize_function_name ''functions.functions.lookup'' = ''lookup''
   \<and> normalize_function_name ''functions.functions.lookup'' \<noteq> ''functions.lookup''"
  by (simp add: normalize_function_name_def)

section \<open>One attempt, reply by reply\<close>

text \<open>
  The blocking body on a reply with a function call: the name goes into the result as
  the reply has it, the arguments are parsed once, and the content of the reply goes
  into the result too.
\<close>

lemma generate_response_body_function_call:
  assumes "functions \<noteq> []"
    and "create \<lparr>req_messages = construct_messages prepend_prompt history append_prompt,
                 req_functions = Some functions\<rparr> = Inr response"
    and "msg_function_call response = Some fc"
  shows "generate_response_body literal_eval create prepend_prompt history append_prompt functions =
     ([LogPrompt (construct_messages prepend_prompt history append_prompt)],
      case literal_eval (fc_arguments fc) of
        Inl e \<Rightarrow> Inl e
      | Inr arguments \<Rightarrow>
          Inr \<lparr>content = get_content (msg_content response),
               function_name = Present (fc_name fc),
               function_arguments = Present arguments,
               send_tokens = prompt_tokens response,
               recv_tokens = completion_tokens response,
               total_tokens = total_tokens_usage response\<rparr>)"
  using assms by (simp add: generate_response_body_def Let_def split: sum.splits)

text \<open>The non-blocking body on a reply with a function call.\<close>

lemma agenerate_response_body_function_call:
  assumes "functions \<noteq> []"
    and "acreate \<lparr>req_messages = construct_messages prepend_prompt history append_prompt,
                  req_functions = Some functions\<rparr> = Inr response"
    and "msg_function_call response = Some fc"
  shows "agenerate_response_body literal_eval repair acreate prepend_prompt history append_prompt
           functions =
     (if valid_function functions (normalize_function_name (fc_name fc)) then
        ([LogPrompt (construct_messages prepend_prompt history append_prompt)]
           @ fst (parse_arguments literal_eval repair (fc_arguments fc)),
         case snd (parse_arguments literal_eval repair (fc_arguments fc)) of
           Inl e \<Rightarrow> Inl e
         | Inr arguments \<Rightarrow>
             Inr \<lparr>content = Absent,
                  function_name = Present (normalize_function_name (fc_name fc)),
                  function_arguments = Present arguments,
                  send_tokens = prompt_tokens response,
                  recv_tokens = completion_tokens response,
                  total_tokens = total_tokens_usage response\<rparr>)
      else
        ([LogPrompt (construct_messages prepend_prompt history append_prompt),
          LogWarn (invalid_name_warning (normalize_function_name (fc_name fc)))],
         Inl (ValueError (invalid_name_message (normalize_function_name (fc_name fc))))))"
  using assms
  by (simp add: agenerate_response_body_def Let_def split: sum.splits prod.splits)

text \<open>
  On a reply without a function call, and on any reply when no function is supplied,
  both bodies do the same: the text result, or the \<^verbatim>\<open>KeyError\<close> of a reply without
  content.
\<close>

lemma bodies_agree_on_text:
  assumes "functions = [] \<or> (\<forall>req response. create req = Inr response \<longrightarrow>
                                 msg_function_call response = None)"
  shows "agenerate_response_body literal_eval repair create prepend_prompt history append_prompt
           functions =
         generate_response_body literal_eval create prepend_prompt history append_prompt functions"
  using assms
  by (auto simp: agenerate_response_body_def generate_response_body_def Let_def
      split: sum.splits option.splits)

subsection \<open>Argument recovery in the non-blocking call\<close>

lemma parse_arguments_valid:
  "literal_eval s = Inr v \<Longrightarrow> parse_arguments literal_eval repair s = ([], Inr v)"
  by (simp add: parse_arguments_def)

lemma parse_arguments_repaired:
  "literal_eval s = Inl e \<Longrightarrow> repair s = Inr s' \<Longrightarrow> literal_eval s' = Inr v \<Longrightarrow>
   parse_arguments literal_eval repair s = ([], Inr v)"
  by (simp add: parse_arguments_def)

lemma parse_arguments_irreparable:
  "literal_eval s = Inl e \<Longrightarrow>
   (\<exists>e'. repair s = Inl e') \<or> (\<exists>s' e'. repair s = Inr s' \<and> literal_eval s' = Inl e') \<Longrightarrow>
   parse_arguments literal_eval repair s =
     ([LogWarn invalid_json_warning], Inl (ValueError invalid_json_message))"
  by (auto simp: parse_arguments_def)

subsection \<open>The shape of a result of the non-blocking call\<close>

lemma text_result_shape:
  "text_result response = Inr r \<Longrightarrow>
   content r \<noteq> Absent \<and> function_name r = Absent \<and> function_arguments r = Absent"
  by (cases "msg_content response") (auto simp: text_result_def)

lemma agenerate_response_body_one_shape:
  assumes "snd (agenerate_response_body literal_eval repair acreate prepend_prompt history
                  append_prompt functions) = Inr r"
  shows "(content r \<noteq> Absent \<and> function_name r = Absent \<and> function_arguments r = Absent)
       \<or> (content r = Absent \<and> function_name r \<noteq> Absent \<and> function_arguments r \<noteq> Absent)"
  using assms
  by (auto simp: agenerate_response_body_def Let_def
      split: if_splits sum.splits option.splits prod.splits dest: text_result_shape)

section \<open>Where the blocking call departs from the non-blocking call\<close>

text \<open>
  C1. The two calls on the same input and the same reply: no prompt in front, an empty
  history, the user prompt \<^verbatim>\<open>find x\<close>, one schema named \<^verbatim>\<open>search\<close>, and a remote
  service that answers with a call of \<^verbatim>\<open>functions.search\<close> with the argument string
  \<^verbatim>\<open>{'q': 'x'}\<close> and the usage 5, 3, 8. Both return at the first attempt. The blocking
  call gives the name \<^verbatim>\<open>functions.search\<close> and the content of the reply, the
  non-blocking call gives the name \<^verbatim>\<open>search\<close> and no content.
\<close>

theorem blocking_and_nonblocking_results_differ:
  assumes "literal_eval ''{'q': 'x'}'' = Inr v"
  shows "generate_response literal_eval
           (\<lambda>n req. Inr \<lparr>msg_content = c,
                          msg_function_call = Some \<lparr>fc_name = ''functions.search'',
                                                     fc_arguments = ''{'q': 'x'}''\<rparr>,
                          prompt_tokens = 5, completion_tokens = 3, total_tokens_usage = 8\<rparr>)
           '''' [] ''find x''
           [\<lparr>fs_name = ''search'', fs_description = d, fs_parameters = ps\<rparr>] =
         (1, [LogPrompt [user_message ''find x'']],
          Inr \<lparr>content = get_content c, function_name = Present ''functions.search'',
               function_arguments = Present v,
               send_tokens = 5, recv_tokens = 3, total_tokens = 8\<rparr>)
       \<and> agenerate_response literal_eval repair
           (\<lambda>n req. Inr \<lparr>msg_content = c,
                          msg_function_call = Some \<lparr>fc_name = ''functions.search'',
                                                     fc_arguments = ''{'q': 'x'}''\<rparr>,
                          prompt_tokens = 5, completion_tokens = 3, total_tokens_usage = 8\<rparr>)
           '''' [] ''find x''
           [\<lparr>fs_name = ''search'', fs_description = d, fs_parameters = ps\<rparr>] =
         (1, [LogPrompt [user_message ''find x'']],
          Inr \<lparr>content = Absent, function_name = Present ''search'',
               function_arguments = Present v,
               send_tokens = 5, recv_tokens = 3, total_tokens = 8\<rparr>)"
proof -
  let ?fs = "[\<lparr>fs_name = ''search'', fs_description = d, fs_parameters = ps\<rparr>]"
  let ?create = "\<lambda>req :: request. Inr \<lparr>msg_content = c,
         msg_function_call = Some \<lparr>fc_name = ''functions.search'',
                                    fc_arguments = ''{'q': 'x'}''\<rparr>,
         prompt_tokens = 5, completion_tokens = 3, total_tokens_usage = 8\<rparr> :: error + response"
  have msgs: "construct_messages '''' [] ''find x'' = [user_message ''find x'']"
    by (simp add: construct_messages_def)
  have b: "generate_response_body literal_eval ?create '''' [] ''find x'' ?fs =
         ([LogPrompt [user_message ''find x'']],
          Inr \<lparr>content = get_content c, function_name = Present ''functions.search'',
               function_arguments = Present v,
               send_tokens = 5, recv_tokens = 3, total_tokens = 8\<rparr>)"
    by (simp add: generate_response_body_def Let_def msgs assms)
  have n: "normalize_function_name ''functions.search'' = ''search''"
    by (simp add: normalize_function_name_def)
  have a: "agenerate_response_body literal_eval repair ?create '''' [] ''find x'' ?fs =
         ([LogPrompt [user_message ''find x'']],
          Inr \<lparr>content = Absent, function_name = Present ''search'',
               function_arguments = Present v,
               send_tokens = 5, recv_tokens = 3, total_tokens = 8\<rparr>)"
    by (simp add: agenerate_response_body_def Let_def msgs n
          parse_arguments_valid [where literal_eval = literal_eval, OF assms])
  show ?thesis
    unfolding generate_response_def agenerate_response_def
    by (simp add: retry_from_returns [where fn = "\<lambda>n. generate_response_body literal_eval ?create
                      '''' [] ''find x'' ?fs", OF b]
                  retry_from_returns [where fn = "\<lambda>n. agenerate_response_body literal_eval repair
                      ?create '''' [] ''find x'' ?fs", OF a])
qed

theorem blocking_and_nonblocking_results_differ_witness:
  "(\<lambda>s. if s = ''{'q': 'x'}'' then Inr [(''q'', ''x'')] else Inl (LiteralError s))
      ''{'q': 'x'}'' = (Inr [(''q'', ''x'')] :: error + (string \<times> string) list)
   \<and> function_name (projr (snd (snd (generate_response
        (\<lambda>s. if s = ''{'q': 'x'}'' then Inr [(''q'', ''x'')] else Inl (LiteralError s))
        (\<lambda>n req. Inr \<lparr>msg_content = Present '''',
                       msg_function_call = Some \<lparr>fc_name = ''functions.search'',
                                                  fc_arguments = ''{'q': 'x'}''\<rparr>,
                       prompt_tokens = 5, completion_tokens = 3, total_tokens_usage = 8\<rparr>)
        '''' [] ''find x''
        [\<lparr>fs_name = ''search'', fs_description = ''web search'', fs_parameters = ''q''\<rparr>]))))
     = Present ''functions.search''
   \<and> function_name (projr (snd (snd (agenerate_response
        (\<lambda>s. if s = ''{'q': 'x'}'' then Inr [(''q'', ''x'')] else Inl (LiteralError s))
        (\<lambda>s. Inr s)
        (\<lambda>n req. Inr \<lparr>msg_content = Present '''',
                       msg_function_call = Some \<lparr>fc_name = ''functions.search'',
                                                  fc_arguments = ''{'q': 'x'}''\<rparr>,
                       prompt_tokens = 5, completion_tokens = 3, total_tokens_usage = 8\<rparr>)
        '''' [] ''find x''
        [\<lparr>fs_name = ''search'', fs_description = ''web search'', fs_parameters = ''q''\<rparr>]))))
     = Present ''search''"
  using blocking_and_nonblocking_results_differ
          [of "\<lambda>s. if s = ''{'q': 'x'}'' then Inr [(''q'', ''x'')] else Inl (LiteralError s)"
              "[(''q'', ''x'')]" "Present ''''" "''web search''" "''q''" "\<lambda>s. Inr s"]
  by simp

text \<open>
  C6. A reply that calls a function whose normalised name is not among the supplied
  schemas, with an argument string that parses. The blocking call does not look at the
  schemas: it returns a result with that name at the first attempt and logs no warning.
  The non-blocking call logs the warning and raises the \<^verbatim>\<open>ValueError\<close> in every
  attempt, so that it ends at attempt 20 with it.
\<close>

theorem blocking_call_accepts_unknown_function:
  assumes "literal_eval s = Inr v"
    and "\<not> valid_function (f # fs) (normalize_function_name nm)"
  shows "generate_response literal_eval
           (\<lambda>n req. Inr \<lparr>msg_content = c,
                          msg_function_call = Some \<lparr>fc_name = nm, fc_arguments = s\<rparr>,
                          prompt_tokens = pt, completion_tokens = ct, total_tokens_usage = tt\<rparr>)
           prepend_prompt history append_prompt (f # fs) =
         (1, [LogPrompt (construct_messages prepend_prompt history append_prompt)],
          Inr \<lparr>content = get_content c, function_name = Present nm,
               function_arguments = Present v,
               send_tokens = pt, recv_tokens = ct, total_tokens = tt\<rparr>)
       \<and> agenerate_response_body literal_eval repair
           (\<lambda>req. Inr \<lparr>msg_content = c,
                        msg_function_call = Some \<lparr>fc_name = nm, fc_arguments = s\<rparr>,
                        prompt_tokens = pt, completion_tokens = ct, total_tokens_usage = tt\<rparr>)
           prepend_prompt history append_prompt (f # fs) =
         ([LogPrompt (construct_messages prepend_prompt history append_prompt),
           LogWarn (invalid_name_warning (normalize_function_name nm))],
          Inl (ValueError (invalid_name_message (normalize_function_name nm))))
       \<and> fst (agenerate_response literal_eval repair
           (\<lambda>n req. Inr \<lparr>msg_content = c,
                          msg_function_call = Some \<lparr>fc_name = nm, fc_arguments = s\<rparr>,
                          prompt_tokens = pt, completion_tokens = ct, total_tokens_usage = tt\<rparr>)
           prepend_prompt history append_prompt (f # fs)) = 20
       \<and> snd (snd (agenerate_response literal_eval repair
           (\<lambda>n req. Inr \<lparr>msg_content = c,
                          msg_function_call = Some \<lparr>fc_name = nm, fc_arguments = s\<rparr>,
                          prompt_tokens = pt, completion_tokens = ct, total_tokens_usage = tt\<rparr>)
           prepend_prompt history append_prompt (f # fs))) =
         Inl (ValueError (invalid_name_message (normalize_function_name nm)))"
proof -
  let ?create = "\<lambda>req :: request. Inr \<lparr>msg_content = c,
         msg_function_call = Some \<lparr>fc_name = nm, fc_arguments = s\<rparr>,
         prompt_tokens = pt, completion_tokens = ct, total_tokens_usage = tt\<rparr> :: error + response"
  let ?b = "\<lambda>n :: nat. generate_response_body literal_eval ?create prepend_prompt history
                        append_prompt (f # fs)"
  let ?a = "\<lambda>n :: nat. agenerate_response_body literal_eval repair ?create prepend_prompt history
                        append_prompt (f # fs)"
  have b: "?b 1 = ([LogPrompt (construct_messages prepend_prompt history append_prompt)],
          Inr \<lparr>content = get_content c, function_name = Present nm,
               function_arguments = Present v,
               send_tokens = pt, recv_tokens = ct, total_tokens = tt\<rparr>)"
    by (simp add: generate_response_body_def Let_def assms(1))
  have a: "?a n = ([LogPrompt (construct_messages prepend_prompt history append_prompt),
           LogWarn (invalid_name_warning (normalize_function_name nm))],
          Inl (ValueError (invalid_name_message (normalize_function_name nm))))"
    using assms(2) by (simp add: agenerate_response_body_def Let_def)
  have ra: "retry_from 20 ?a 1 = (20, concat (map (\<lambda>i. fst (?a i)) [1..<Suc 20]), snd (?a 20))"
    by (rule retry_from_all_fail) (simp_all add: a)
  have "generate_response literal_eval (\<lambda>n. ?create) prepend_prompt history append_prompt
          (f # fs) = (1, ?b 1)"
    unfolding generate_response_def
    using retry_from_returns [where fn = ?b, OF b] b by simp
  moreover have "fst (agenerate_response literal_eval repair (\<lambda>n. ?create) prepend_prompt
          history append_prompt (f # fs)) = 20"
    by (simp only: agenerate_response_def stop_after_attempt_def ra fst_conv)
  moreover have "snd (snd (agenerate_response literal_eval repair (\<lambda>n. ?create) prepend_prompt
          history append_prompt (f # fs))) = snd (?a 20)"
    by (simp only: agenerate_response_def stop_after_attempt_def ra snd_conv)
  ultimately show ?thesis using a b by simp
qed

theorem blocking_call_accepts_unknown_function_witness:
  "\<not> valid_function
        [\<lparr>fs_name = ''search'', fs_description = ''web search'', fs_parameters = ''q''\<rparr>]
        (normalize_function_name ''delete_all'')
   \<and> generate_response
        (\<lambda>s. if s = ''{}'' then Inr [] else Inl (LiteralError s) :: error + (string \<times> string) list)
        (\<lambda>n req. Inr \<lparr>msg_content = Present '''',
                       msg_function_call = Some \<lparr>fc_name = ''delete_all'', fc_arguments = ''{}''\<rparr>,
                       prompt_tokens = 5, completion_tokens = 3, total_tokens_usage = 8\<rparr>)
        '''' [] ''find x''
        [\<lparr>fs_name = ''search'', fs_description = ''web search'', fs_parameters = ''q''\<rparr>] =
      (1, [LogPrompt [user_message ''find x'']],
       Inr \<lparr>content = Present '''', function_name = Present ''delete_all'',
            function_arguments = Present [],
            send_tokens = 5, recv_tokens = 3, total_tokens = 8\<rparr>)
   \<and> fst (agenerate_response
        (\<lambda>s. if s = ''{}'' then Inr [] else Inl (LiteralError s) :: error + (string \<times> string) list)
        (\<lambda>s. Inr s)
        (\<lambda>n req. Inr \<lparr>msg_content = Present '''',
                       msg_function_call = Some \<lparr>fc_name = ''delete_all'', fc_arguments = ''{}''\<rparr>,
                       prompt_tokens = 5, completion_tokens = 3, total_tokens_usage = 8\<rparr>)
        '''' [] ''find x''
        [\<lparr>fs_name = ''search'', fs_description = ''web search'', fs_parameters = ''q''\<rparr>]) = 20"
proof -
  have v: "\<not> valid_function
        [\<lparr>fs_name = ''search'', fs_description = ''web search'', fs_parameters = ''q''\<rparr>]
        (normalize_function_name ''delete_all'')"
    by (simp add: normalize_function_name_def)
  have m: "construct_messages '''' [] ''find x'' = [user_message ''find x'']"
    by (simp add: construct_messages_def)
  show ?thesis
    using v blocking_call_accepts_unknown_function
            [of "\<lambda>s. if s = ''{}'' then Inr [] else Inl (LiteralError s)" "''{}''"
                "[] :: (string \<times> string) list"
                "\<lparr>fs_name = ''search'', fs_description = ''web search'', fs_parameters = ''q''\<rparr>"
                "[]" "''delete_all''" "Present ''''" 5 3 8 "''''" "[]" "''find x''" "\<lambda>s. Inr s",
             OF _ v]
    by (simp add: m)
qed

text \<open>
  C2. A reply that calls a supplied function with an argument string that does not
  parse, that the repair routine turns into a string that parses. The blocking call
  never calls the repair routine: every attempt raises what \<^verbatim>\<open>ast.literal_eval\<close>
  raised, and the call ends at attempt 20 with it. The non-blocking call returns at the
  first attempt, with the arguments parsed from the repaired string.
\<close>

theorem blocking_call_does_not_repair:
  assumes "literal_eval s = Inl e" and "is_Exception e"
    and "repair s = Inr s'" and "literal_eval s' = Inr v"
    and "valid_function (f # fs) (normalize_function_name nm)"
  shows "fst (generate_response literal_eval
           (\<lambda>n req. Inr \<lparr>msg_content = c,
                          msg_function_call = Some \<lparr>fc_name = nm, fc_arguments = s\<rparr>,
                          prompt_tokens = pt, completion_tokens = ct, total_tokens_usage = tt\<rparr>)
           prepend_prompt history append_prompt (f # fs)) = 20
       \<and> snd (snd (generate_response literal_eval
           (\<lambda>n req. Inr \<lparr>msg_content = c,
                          msg_function_call = Some \<lparr>fc_name = nm, fc_arguments = s\<rparr>,
                          prompt_tokens = pt, completion_tokens = ct, total_tokens_usage = tt\<rparr>)
           prepend_prompt history append_prompt (f # fs))) = Inl e
       \<and> agenerate_response literal_eval repair
           (\<lambda>n req. Inr \<lparr>msg_content = c,
                          msg_function_call = Some \<lparr>fc_name = nm, fc_arguments = s\<rparr>,
                          prompt_tokens = pt, completion_tokens = ct, total_tokens_usage = tt\<rparr>)
           prepend_prompt history append_prompt (f # fs) =
         (1, [LogPrompt (construct_messages prepend_prompt history append_prompt)],
          Inr \<lparr>content = Absent, function_name = Present (normalize_function_name nm),
               function_arguments = Present v,
               send_tokens = pt, recv_tokens = ct, total_tokens = tt\<rparr>)"
proof -
  let ?create = "\<lambda>req :: request. Inr \<lparr>msg_content = c,
         msg_function_call = Some \<lparr>fc_name = nm, fc_arguments = s\<rparr>,
         prompt_tokens = pt, completion_tokens = ct, total_tokens_usage = tt\<rparr> :: error + response"
  let ?b = "\<lambda>n :: nat. generate_response_body literal_eval ?create prepend_prompt history
                        append_prompt (f # fs)"
  let ?a = "\<lambda>n :: nat. agenerate_response_body literal_eval repair ?create prepend_prompt history
                        append_prompt (f # fs)"
  have b: "?b n = ([LogPrompt (construct_messages prepend_prompt history append_prompt)], Inl e)"
    by (simp add: generate_response_body_def Let_def assms(1))
  have p: "parse_arguments literal_eval repair s = ([], Inr v)"
    using assms(1,3,4) by (simp add: parse_arguments_def)
  have a: "?a 1 = ([LogPrompt (construct_messages prepend_prompt history append_prompt)],
          Inr \<lparr>content = Absent, function_name = Present (normalize_function_name nm),
               function_arguments = Present v,
               send_tokens = pt, recv_tokens = ct, total_tokens = tt\<rparr>)"
    using assms(5) by (simp add: agenerate_response_body_def Let_def p)
  have rb: "retry_from 20 ?b 1 = (20, concat (map (\<lambda>i. fst (?b i)) [1..<Suc 20]), snd (?b 20))"
    by (rule retry_from_all_fail) (simp_all add: b assms(2))
  have "fst (generate_response literal_eval (\<lambda>n. ?create) prepend_prompt history append_prompt
          (f # fs)) = 20"
    by (simp only: generate_response_def stop_after_attempt_def rb fst_conv)
  moreover have "snd (snd (generate_response literal_eval (\<lambda>n. ?create) prepend_prompt history
          append_prompt (f # fs))) = snd (?b 20)"
    by (simp only: generate_response_def stop_after_attempt_def rb snd_conv)
  moreover have "agenerate_response literal_eval repair (\<lambda>n. ?create) prepend_prompt history
          append_prompt (f # fs) = (1, ?a 1)"
    unfolding agenerate_response_def
    using retry_from_returns [where fn = ?a, OF a] a by simp
  ultimately show ?thesis using a b by simp
qed

theorem blocking_call_does_not_repair_witness:
  "fst (generate_response
        (\<lambda>s. if s = ''{'q': 'x'}'' then Inr [(''q'', ''x'')] else Inl (LiteralError s))
        (\<lambda>n req. Inr \<lparr>msg_content = Present '''',
                       msg_function_call = Some \<lparr>fc_name = ''search'',
                                                  fc_arguments = ''{q: 'x'}''\<rparr>,
                       prompt_tokens = 5, completion_tokens = 3, total_tokens_usage = 8\<rparr>)
        '''' [] ''find x''
        [\<lparr>fs_name = ''search'', fs_description = ''web search'', fs_parameters = ''q''\<rparr>]) = 20
   \<and> snd (snd (generate_response
        (\<lambda>s. if s = ''{'q': 'x'}'' then Inr [(''q'', ''x'')] else Inl (LiteralError s))
        (\<lambda>n req. Inr \<lparr>msg_content = Present '''',
                       msg_function_call = Some \<lparr>fc_name = ''search'',
                                                  fc_arguments = ''{q: 'x'}''\<rparr>,
                       prompt_tokens = 5, completion_tokens = 3, total_tokens_usage = 8\<rparr>)
        '''' [] ''find x''
        [\<lparr>fs_name = ''search'', fs_description = ''web search'', fs_parameters = ''q''\<rparr>]))
       = Inl (LiteralError ''{q: 'x'}'')
   \<and> agenerate_response
        (\<lambda>s. if s = ''{'q': 'x'}'' then Inr [(''q'', ''x'')] else Inl (LiteralError s))
        (\<lambda>s. if s = ''{q: 'x'}'' then Inr ''{'q': 'x'}'' else Inr s)
        (\<lambda>n req. Inr \<lparr>msg_content = Present '''',
                       msg_function_call = Some \<lparr>fc_name = ''search'',
                                                  fc_arguments = ''{q: 'x'}''\<rparr>,
                       prompt_tokens = 5, completion_tokens = 3, total_tokens_usage = 8\<rparr>)
        '''' [] ''find x''
        [\<lparr>fs_name = ''search'', fs_description = ''web search'', fs_parameters = ''q''\<rparr>] =
      (1, [LogPrompt [user_message ''find x'']],
       Inr \<lparr>content = Absent, function_name = Present ''search'',
            function_arguments = Present [(''q'', ''x'')],
            send_tokens = 5, recv_tokens = 3, total_tokens = 8\<rparr>)"
proof -
  have n: "normalize_function_name ''search'' = ''search''"
    by (simp add: normalize_function_name_def)
  have m: "construct_messages '''' [] ''find x'' = [user_message ''find x'']"
    by (simp add: construct_messages_def)
  show ?thesis
    using blocking_call_does_not_repair
            [of "\<lambda>s. if s = ''{'q': 'x'}'' then Inr [(''q'', ''x'')] else Inl (LiteralError s)"
                "''{q: 'x'}''" "LiteralError ''{q: 'x'}''"
                "\<lambda>s. if s = ''{q: 'x'}'' then Inr ''{'q': 'x'}'' else Inr s"
                "''{'q': 'x'}''" "[(''q'', ''x'')]"
                "\<lparr>fs_name = ''search'', fs_description = ''web search'', fs_parameters = ''q''\<rparr>"
                "[]" "''search''" "Present ''''" 5 3 8 "''''" "[]" "''find x''"]
    by (simp add: n m)
qed

text \<open>
  C4. A reply that carries both a text content and a function call, with an argument
  string that parses. The result of the blocking call has the content of the reply and
  the function name and arguments, all three.
\<close>

theorem blocking_call_result_has_both_shapes:
  assumes "literal_eval s = Inr v"
  shows "generate_response literal_eval
           (\<lambda>n req. Inr \<lparr>msg_content = Present txt,
                          msg_function_call = Some \<lparr>fc_name = nm, fc_arguments = s\<rparr>,
                          prompt_tokens = pt, completion_tokens = ct, total_tokens_usage = tt\<rparr>)
           prepend_prompt history append_prompt (f # fs) =
         (1, [LogPrompt (construct_messages prepend_prompt history append_prompt)],
          Inr \<lparr>content = Present txt, function_name = Present nm,
               function_arguments = Present v,
               send_tokens = pt, recv_tokens = ct, total_tokens = tt\<rparr>)"
proof -
  let ?create = "\<lambda>req :: request. Inr \<lparr>msg_content = Present txt,
         msg_function_call = Some \<lparr>fc_name = nm, fc_arguments = s\<rparr>,
         prompt_tokens = pt, completion_tokens = ct, total_tokens_usage = tt\<rparr> :: error + response"
  let ?b = "\<lambda>n :: nat. generate_response_body literal_eval ?create prepend_prompt history
                        append_prompt (f # fs)"
  have b: "?b 1 = ([LogPrompt (construct_messages prepend_prompt history append_prompt)],
          Inr \<lparr>content = Present txt, function_name = Present nm,
               function_arguments = Present v,
               send_tokens = pt, recv_tokens = ct, total_tokens = tt\<rparr>)"
    by (simp add: generate_response_body_def Let_def assms)
  show ?thesis
    unfolding generate_response_def
    using retry_from_returns [where fn = ?b, OF b] by simp
qed

theorem blocking_call_result_has_both_shapes_witness:
  "generate_response
     (\<lambda>s. if s = ''{'q': 'x'}'' then Inr [(''q'', ''x'')] else Inl (LiteralError s))
     (\<lambda>n req. Inr \<lparr>msg_content = Present ''Let me search.'',
                    msg_function_call = Some \<lparr>fc_name = ''search'',
                                               fc_arguments = ''{'q': 'x'}''\<rparr>,
                    prompt_tokens = 5, completion_tokens = 3, total_tokens_usage = 8\<rparr>)
     '''' [] ''find x''
     [\<lparr>fs_name = ''search'', fs_description = ''web search'', fs_parameters = ''q''\<rparr>] =
   (1, [LogPrompt [user_message ''find x'']],
    Inr \<lparr>content = Present ''Let me search.'', function_name = Present ''search'',
         function_arguments = Present [(''q'', ''x'')],
         send_tokens = 5, recv_tokens = 3, total_tokens = 8\<rparr>)"
proof -
  have m: "construct_messages '''' [] ''find x'' = [user_message ''find x'']"
    by (simp add: construct_messages_def)
  show ?thesis
    using blocking_call_result_has_both_shapes
            [of "\<lambda>s. if s = ''{'q': 'x'}'' then Inr [(''q'', ''x'')] else Inl (LiteralError s)"
                "''{'q': 'x'}''" "[(''q'', ''x'')]" "''Let me search.''" "''search''" 5 3 8
                "''''" "[]" "''find x''"
                "\<lparr>fs_name = ''search'', fs_description = ''web search'', fs_parameters = ''q''\<rparr>"
                "[]"]
    by (simp add: m)
qed

section \<open>An interruption inside the argument recovery\<close>

text \<open>
  C9. A reply that calls a supplied function, and a \<^verbatim>\<open>KeyboardInterrupt\<close> that is
  raised while \<^verbatim>\<open>ast.literal_eval\<close> works on the argument string. The blocking call
  passes it on: one attempt, and the caller gets the \<^verbatim>\<open>KeyboardInterrupt\<close>. In the
  non-blocking call the bare \<^verbatim>\<open>except\<close> of line 226 catches it. When the repair
  routine is interrupted too, the bare \<^verbatim>\<open>except\<close> of line 235 turns that into the
  \<^verbatim>\<open>ValueError\<close>, which is retried: twenty attempts are run and the caller gets the
  \<^verbatim>\<open>ValueError\<close>. When the repair routine gives a string that parses, the call
  returns a result and the interruption is lost.
\<close>

theorem nonblocking_call_swallows_interrupt:
  assumes "literal_eval s = Inl KeyboardInterrupt"
    and "valid_function (f # fs) (normalize_function_name nm)"
  shows "generate_response literal_eval
           (\<lambda>n req. Inr \<lparr>msg_content = c,
                          msg_function_call = Some \<lparr>fc_name = nm, fc_arguments = s\<rparr>,
                          prompt_tokens = pt, completion_tokens = ct, total_tokens_usage = tt\<rparr>)
           prepend_prompt history append_prompt (f # fs) =
         (1, [LogPrompt (construct_messages prepend_prompt history append_prompt)],
          Inl KeyboardInterrupt)
       \<and> (repair s = Inl KeyboardInterrupt \<longrightarrow>
            fst (agenerate_response literal_eval repair
              (\<lambda>n req. Inr \<lparr>msg_content = c,
                             msg_function_call = Some \<lparr>fc_name = nm, fc_arguments = s\<rparr>,
                             prompt_tokens = pt, completion_tokens = ct,
                             total_tokens_usage = tt\<rparr>)
              prepend_prompt history append_prompt (f # fs)) = 20
          \<and> filter is_prompt (fst (snd (agenerate_response literal_eval repair
              (\<lambda>n req. Inr \<lparr>msg_content = c,
                             msg_function_call = Some \<lparr>fc_name = nm, fc_arguments = s\<rparr>,
                             prompt_tokens = pt, completion_tokens = ct,
                             total_tokens_usage = tt\<rparr>)
              prepend_prompt history append_prompt (f # fs)))) =
            replicate 20 (LogPrompt (construct_messages prepend_prompt history append_prompt))
          \<and> snd (snd (agenerate_response literal_eval repair
              (\<lambda>n req. Inr \<lparr>msg_content = c,
                             msg_function_call = Some \<lparr>fc_name = nm, fc_arguments = s\<rparr>,
                             prompt_tokens = pt, completion_tokens = ct,
                             total_tokens_usage = tt\<rparr>)
              prepend_prompt history append_prompt (f # fs))) =
            Inl (ValueError invalid_json_message))
       \<and> (repair s = Inr s' \<and> literal_eval s' = Inr v \<longrightarrow>
            agenerate_response literal_eval repair
              (\<lambda>n req. Inr \<lparr>msg_content = c,
                             msg_function_call = Some \<lparr>fc_name = nm, fc_arguments = s\<rparr>,
                             prompt_tokens = pt, completion_tokens = ct,
                             total_tokens_usage = tt\<rparr>)
              prepend_prompt history append_prompt (f # fs) =
            (1, [LogPrompt (construct_messages prepend_prompt history append_prompt)],
             Inr \<lparr>content = Absent, function_name = Present (normalize_function_name nm),
                  function_arguments = Present v,
                  send_tokens = pt, recv_tokens = ct, total_tokens = tt\<rparr>))"
proof (intro conjI impI)
  let ?create = "\<lambda>req :: request. Inr \<lparr>msg_content = c,
         msg_function_call = Some \<lparr>fc_name = nm, fc_arguments = s\<rparr>,
         prompt_tokens = pt, completion_tokens = ct, total_tokens_usage = tt\<rparr> :: error + response"
  let ?b = "\<lambda>n :: nat. generate_response_body literal_eval ?create prepend_prompt history
                        append_prompt (f # fs)"
  let ?a = "\<lambda>n :: nat. agenerate_response_body literal_eval repair ?create prepend_prompt history
                        append_prompt (f # fs)"
  let ?msgs = "construct_messages prepend_prompt history append_prompt"
  have b: "?b 1 = ([LogPrompt ?msgs], Inl KeyboardInterrupt)"
    by (simp add: generate_response_body_def Let_def assms(1))
  have "retry_from 20 ?b 1 = (1, [LogPrompt ?msgs], Inl KeyboardInterrupt)"
    by (rule retry_from_raises [where fn = ?b, OF b]) simp
  then show "generate_response literal_eval (\<lambda>n. ?create) prepend_prompt history append_prompt
               (f # fs) = (1, [LogPrompt ?msgs], Inl KeyboardInterrupt)"
    by (simp only: generate_response_def stop_after_attempt_def)
  {
    assume r: "repair s = Inl KeyboardInterrupt"
    have p: "parse_arguments literal_eval repair s =
               ([LogWarn invalid_json_warning], Inl (ValueError invalid_json_message))"
      by (simp add: parse_arguments_def assms(1) r)
    have a: "?a 1 = ([LogPrompt ?msgs, LogWarn invalid_json_warning],
                     Inl (ValueError invalid_json_message))"
      using assms(2) by (simp add: agenerate_response_body_def Let_def p)
    have ra: "retry_from 20 ?a 1 =
                (20, concat (map (\<lambda>i. fst (?a i)) [1..<Suc 20]), snd (?a 20))"
      by (rule retry_from_all_fail) (simp_all add: a)
    show "fst (agenerate_response literal_eval repair (\<lambda>n. ?create) prepend_prompt history
                 append_prompt (f # fs)) = 20"
      by (simp only: agenerate_response_def stop_after_attempt_def ra fst_conv)
    have "filter is_prompt (concat (map (\<lambda>i. fst (?a i)) [1..<Suc 20])) =
            replicate (length [1..<Suc 20]) (LogPrompt ?msgs)"
      by (rule filter_concat_single) (rule agenerate_response_body_prompts)
    then show "filter is_prompt (fst (snd (agenerate_response literal_eval repair
                 (\<lambda>n. ?create) prepend_prompt history append_prompt (f # fs)))) =
               replicate 20 (LogPrompt ?msgs)"
      by (simp only: agenerate_response_def stop_after_attempt_def ra fst_conv snd_conv) simp
    have "snd (snd (agenerate_response literal_eval repair (\<lambda>n. ?create) prepend_prompt
                 history append_prompt (f # fs))) = snd (?a 20)"
      by (simp only: agenerate_response_def stop_after_attempt_def ra snd_conv)
    then show "snd (snd (agenerate_response literal_eval repair (\<lambda>n. ?create) prepend_prompt
                 history append_prompt (f # fs))) = Inl (ValueError invalid_json_message)"
      using a by simp
  }
  {
    assume r: "repair s = Inr s' \<and> literal_eval s' = Inr v"
    have p: "parse_arguments literal_eval repair s = ([], Inr v)"
      using r by (simp add: parse_arguments_def assms(1))
    have a: "?a 1 = ([LogPrompt ?msgs],
          Inr \<lparr>content = Absent, function_name = Present (normalize_function_name nm),
               function_arguments = Present v,
               send_tokens = pt, recv_tokens = ct, total_tokens = tt\<rparr>)"
      using assms(2) by (simp add: agenerate_response_body_def Let_def p)
    show "agenerate_response literal_eval repair (\<lambda>n. ?create) prepend_prompt history
            append_prompt (f # fs) =
          (1, [LogPrompt ?msgs],
           Inr \<lparr>content = Absent, function_name = Present (normalize_function_name nm),
                function_arguments = Present v,
                send_tokens = pt, recv_tokens = ct, total_tokens = tt\<rparr>)"
      unfolding agenerate_response_def
      using retry_from_returns [where fn = ?a, OF a] by simp
  }
qed

text \<open>
  The interruption comes while the argument string \<^verbatim>\<open>{q: 'x'}\<close> is parsed. With a
  repair routine that is interrupted as well, the non-blocking call runs twenty attempts
  and ends with the \<^verbatim>\<open>ValueError\<close>; with a repair routine that quotes the key, it
  returns the result; the blocking call stops at once with the interruption.
\<close>

theorem nonblocking_call_swallows_interrupt_witness:
  "generate_response
     (\<lambda>s. if s = ''{'q': 'x'}'' then Inr [(''q'', ''x'')] else Inl KeyboardInterrupt)
     (\<lambda>n req. Inr \<lparr>msg_content = Present '''',
                    msg_function_call = Some \<lparr>fc_name = ''search'',
                                               fc_arguments = ''{q: 'x'}''\<rparr>,
                    prompt_tokens = 5, completion_tokens = 3, total_tokens_usage = 8\<rparr>)
     '''' [] ''find x''
     [\<lparr>fs_name = ''search'', fs_description = ''web search'', fs_parameters = ''q''\<rparr>] =
   (1, [LogPrompt (construct_messages '''' [] ''find x'')], Inl KeyboardInterrupt)
   \<and> fst (agenerate_response
        (\<lambda>s. if s = ''{'q': 'x'}'' then Inr [(''q'', ''x'')] else Inl KeyboardInterrupt)
        (\<lambda>s. Inl KeyboardInterrupt)
        (\<lambda>n req. Inr \<lparr>msg_content = Present '''',
                       msg_function_call = Some \<lparr>fc_name = ''search'',
                                                  fc_arguments = ''{q: 'x'}''\<rparr>,
                       prompt_tokens = 5, completion_tokens = 3, total_tokens_usage = 8\<rparr>)
        '''' [] ''find x''
        [\<lparr>fs_name = ''search'', fs_description = ''web search'', fs_parameters = ''q''\<rparr>]) = 20
   \<and> snd (snd (agenerate_response
        (\<lambda>s. if s = ''{'q': 'x'}'' then Inr [(''q'', ''x'')] else Inl KeyboardInterrupt)
        (\<lambda>s. Inl KeyboardInterrupt)
        (\<lambda>n req. Inr \<lparr>msg_content = Present '''',
                       msg_function_call = Some \<lparr>fc_name = ''search'',
                                                  fc_arguments = ''{q: 'x'}''\<rparr>,
                       prompt_tokens = 5, completion_tokens = 3, total_tokens_usage = 8\<rparr>)
        '''' [] ''find x''
        [\<lparr>fs_name = ''search'', fs_description = ''web search'', fs_parameters = ''q''\<rparr>]))
       = Inl (ValueError invalid_json_message)
   \<and> agenerate_response
        (\<lambda>s. if s = ''{'q': 'x'}'' then Inr [(''q'', ''x'')] else Inl KeyboardInterrupt)
        (\<lambda>s. Inr ''{'q': 'x'}'')
        (\<lambda>n req. Inr \<lparr>msg_content = Present '''',
                       msg_function_call = Some \<lparr>fc_name = ''search'',
                                                  fc_arguments = ''{q: 'x'}''\<rparr>,
                       prompt_tokens = 5, completion_tokens = 3, total_tokens_usage = 8\<rparr>)
        '''' [] ''find x''
        [\<lparr>fs_name = ''search'', fs_description = ''web search'', fs_parameters = ''q''\<rparr>] =
      (1, [LogPrompt (construct_messages '''' [] ''find x'')],
       Inr \<lparr>content = Absent, function_name = Present ''search'',
            function_arguments = Present [(''q'', ''x'')],
            send_tokens = 5, recv_tokens = 3, total_tokens = 8\<rparr>)"
proof -
  let ?lit = "\<lambda>s. if s = ''{'q': 'x'}'' then Inr [(''q'', ''x'')] else Inl KeyboardInterrupt"
  let ?f = "\<lparr>fs_name = ''search'', fs_description = ''web search'', fs_parameters = ''q''\<rparr>"
  have n: "normalize_function_name ''search'' = ''search''"
    by (simp add: normalize_function_name_def)
  have l: "?lit ''{q: 'x'}'' = Inl KeyboardInterrupt" by simp
  have v: "valid_function [?f] (normalize_function_name ''search'')" by (simp add: n)
  note t1 = nonblocking_call_swallows_interrupt
              [of ?lit "''{q: 'x'}''" ?f "[]" "''search''" "Present ''''" 5 3 8
                  "''''" "[]" "''find x''" "\<lambda>s. Inl KeyboardInterrupt" "''{'q': 'x'}''"
                  "[(''q'', ''x'')]", OF l v]
  note t2 = nonblocking_call_swallows_interrupt
              [of ?lit "''{q: 'x'}''" ?f "[]" "''search''" "Present ''''" 5 3 8
                  "''''" "[]" "''find x''" "\<lambda>s. Inr ''{'q': 'x'}''" "''{'q': 'x'}''"
                  "[(''q'', ''x'')]", OF l v]
  show ?thesis using t1 t2 by (simp add: n)
qed

end
